theory Spec2Isabelle
  imports Complex_Main "HOL-Library.List_Lexorder" "HOL-Library.Char_ord"
begin

section \<open>Ledger store of finance\_app.py\<close>

text \<open>
  The three SQLite tables of \<^verbatim>\<open>init_db\<close>. A table is the list of its rows in the
  order they were inserted. \<^verbatim>\<open>REAL\<close> columns and Python floats are modelled by
  HOL reals: finite values with exact arithmetic. \<^verbatim>\<open>TEXT\<close> columns are strings,
  compared as SQLite's BINARY collation compares them (lexicographically by
  character code). The date column of a rate row is the ISO string the code stores. The
  date column of a transaction always holds \<^verbatim>\<open>d.isoformat()\<close> of a Python date
  \<^verbatim>\<open>d\<close>; the model keeps \<^verbatim>\<open>d\<close> itself and applies \<^verbatim>\<open>isoformat\<close> and
  \<^verbatim>\<open>strftime\<close> where a query reads the column. Strings are sequences of 8-bit
  characters; case mapping and white space are those of ASCII.
\<close>

record pydate =
  py_year :: nat
  py_month :: nat
  py_day :: nat

record account =
  acc_id :: nat
  acc_name :: string
  acc_currency :: string

record txn =
  tx_id :: nat
  tx_date :: pydate
  tx_type :: string
  tx_category :: string
  tx_amount :: real
  tx_currency :: string
  tx_account_id :: nat
  tx_note :: string

record exchange_rate =
  er_id :: nat
  from_currency :: string
  to_currency :: string
  er_rate :: real
  er_date :: string
  er_source :: string

record store =
  accounts :: "account list"
  transactions :: "txn list"
  exchange_rates :: "exchange_rate list"

definition CURRENCIES :: "string list" where
  "CURRENCIES = [''CNY'', ''USD'', ''EUR'', ''GBP'', ''JPY'', ''CAD'', ''AUD'']"

definition ALLOWED_TYPES :: "string list" where
  "ALLOWED_TYPES = [''income'', ''expense'', ''transfer'']"

text \<open>
  A full table scan visits the rows in rowid order (\<^verbatim>\<open>id INTEGER PRIMARY KEY\<close> is the
  rowid). \<^verbatim>\<open>lastrowid\<close> of an insert without an explicit id is one more than the
  largest rowid in the table, and 1 in an empty table.
\<close>

definition table_scan :: "('a \<Rightarrow> nat) \<Rightarrow> 'a list \<Rightarrow> 'a list" where
  "table_scan rowid rows = sort_key rowid rows"

definition next_rowid :: "('a \<Rightarrow> nat) \<Rightarrow> 'a list \<Rightarrow> nat" where
  "next_rowid rowid rows = fold max (map rowid rows) 0 + 1"

definition mk_rate :: "nat \<Rightarrow> string \<Rightarrow> string \<Rightarrow> real \<Rightarrow> string \<Rightarrow> string \<Rightarrow> exchange_rate" where
  "mk_rate i f t r d s =
     \<lparr>er_id = i, from_currency = f, to_currency = t, er_rate = r, er_date = d, er_source = s\<rparr>"

definition mk_account :: "nat \<Rightarrow> string \<Rightarrow> string \<Rightarrow> account" where
  "mk_account i n c = \<lparr>acc_id = i, acc_name = n, acc_currency = c\<rparr>"

definition mk_txn :: "nat \<Rightarrow> pydate \<Rightarrow> string \<Rightarrow> string \<Rightarrow> real \<Rightarrow> string \<Rightarrow> nat \<Rightarrow> string \<Rightarrow> txn" where
  "mk_txn i d ty cat amt cur a n =
     \<lparr>tx_id = i, tx_date = d, tx_type = ty, tx_category = cat, tx_amount = amt,
      tx_currency = cur, tx_account_id = a, tx_note = n\<rparr>"

subsection \<open>Rate resolver: \<^verbatim>\<open>get_latest_rate\<close>\<close>

text \<open>
  \<^verbatim>\<open>ORDER BY date DESC\<close>: the query names no second sort key, so SQL leaves the
  order among rows of equal date open. SQLite sorts stably with respect to the scan,
  which is what the insertion below does: a row stays in front of the later-scanned
  rows of the same date.
\<close>

fun insort_date_desc :: "exchange_rate \<Rightarrow> exchange_rate list \<Rightarrow> exchange_rate list" where
  "insort_date_desc r [] = [r]"
| "insort_date_desc r (y # ys) =
     (if er_date y \<le> er_date r then r # y # ys else y # insort_date_desc r ys)"

definition order_by_date_desc :: "exchange_rate list \<Rightarrow> exchange_rate list" where
  "order_by_date_desc rows = foldr insort_date_desc rows []"

text \<open>
  \<^verbatim>\<open>SELECT rate FROM exchange_rates WHERE from_currency = ? AND to_currency = ?
  ORDER BY date DESC LIMIT 1\<close>, then \<^verbatim>\<open>fetchone()\<close>.
\<close>

definition select_latest_rate :: "exchange_rate list \<Rightarrow> string \<Rightarrow> string \<Rightarrow> exchange_rate option" where
  "select_latest_rate rows f t =
     (case order_by_date_desc
             (filter (\<lambda>r. from_currency r = f \<and> to_currency r = t) (table_scan er_id rows)) of
        [] \<Rightarrow> None
      | r # _ \<Rightarrow> Some r)"

text \<open>
  \<^verbatim>\<open>get_latest_rate\<close> returns a number; the model also returns the list of currency
  pairs it queried the table for, in the order of the \<^verbatim>\<open>conn.execute\<close> calls.
\<close>

definition via_usd :: "exchange_rate list \<Rightarrow> string \<Rightarrow> string \<Rightarrow> (string \<times> string) list \<times> real" where
  "via_usd rows f t =
     (if f \<noteq> ''USD'' \<and> t \<noteq> ''USD'' then
        (case (select_latest_rate rows f ''USD'', select_latest_rate rows ''USD'' t) of
           (Some a, Some b) \<Rightarrow>
             (if er_rate a \<noteq> 0 \<and> er_rate b \<noteq> 0
              then ([(f, ''USD''), (''USD'', t)], er_rate a * er_rate b)
              else ([(f, ''USD''), (''USD'', t)], 1))
         | _ \<Rightarrow> ([(f, ''USD''), (''USD'', t)], 1))
      else ([], 1))"

definition get_latest_rate_log :: "exchange_rate list \<Rightarrow> string \<Rightarrow> string \<Rightarrow> (string \<times> string) list \<times> real" where
  "get_latest_rate_log rows f t =
     (if f = t then ([], 1)
      else
        (case select_latest_rate rows f t of
           Some r \<Rightarrow> ([(f, t)], er_rate r)
         | None \<Rightarrow>
             (case select_latest_rate rows t f of
                Some r2 \<Rightarrow>
                  (if er_rate r2 \<noteq> 0 then ([(f, t), (t, f)], 1 / er_rate r2)
                   else (case via_usd rows f t of (qs, v) \<Rightarrow> ([(f, t), (t, f)] @ qs, v)))
              | None \<Rightarrow> (case via_usd rows f t of (qs, v) \<Rightarrow> ([(f, t), (t, f)] @ qs, v)))))"

definition get_latest_rate :: "exchange_rate list \<Rightarrow> string \<Rightarrow> string \<Rightarrow> real" where
  "get_latest_rate rows f t = snd (get_latest_rate_log rows f t)"

subsection \<open>Balance aggregation in \<^verbatim>\<open>api_dashboard\<close>\<close>

text \<open>
  Python's \<^verbatim>\<open>round(x, 2)\<close>: the nearest multiple of 0.01, a value exactly half way
  going to the even neighbour.
\<close>

definition round_half_even :: "real \<Rightarrow> int" where
  "round_half_even y =
     (let f = \<lfloor>y\<rfloor>; d = y - of_int f
      in if d < 1 / 2 then f else if 1 / 2 < d then f + 1 else if even f then f else f + 1)"

definition py_round2 :: "real \<Rightarrow> real" where
  "py_round2 x = of_int (round_half_even (x * 100)) / 100"

text \<open>
  The loop \<^verbatim>\<open>for r in rows\<close> over the rows of
  \<^verbatim>\<open>SELECT type, amount, currency FROM transactions WHERE account_id = ?\<close>,
  with the running \<^verbatim>\<open>balance\<close> as accumulator.
\<close>

fun balance_loop :: "exchange_rate list \<Rightarrow> string \<Rightarrow> txn list \<Rightarrow> real \<Rightarrow> real" where
  "balance_loop rates acc_curr [] balance = balance"
| "balance_loop rates acc_curr (r # rs) balance =
     (let amt = tx_amount r;
          src_curr = tx_currency r;
          rate = get_latest_rate rates src_curr acc_curr;
          converted = amt * rate
      in if tx_type r = ''expense''
         then balance_loop rates acc_curr rs (balance - converted)
         else balance_loop rates acc_curr rs (balance + converted))"

definition account_balance :: "store \<Rightarrow> account \<Rightarrow> real" where
  "account_balance st acc =
     (let rows = filter (\<lambda>t. tx_account_id t = acc_id acc) (table_scan tx_id (transactions st))
      in py_round2 (balance_loop (exchange_rates st) (acc_currency acc) rows 0))"

definition account_balances :: "store \<Rightarrow> (account \<times> real) list" where
  "account_balances st = map (\<lambda>acc. (acc, account_balance st acc)) (table_scan acc_id (accounts st))"


subsection \<open>Strings and dates\<close>

definition is_digit :: "char \<Rightarrow> bool" where
  "is_digit c = (c \<in> set ''0123456789'')"

definition digit_val :: "char \<Rightarrow> nat" where
  "digit_val c = of_char c - 48"

fun str_nat :: "nat \<Rightarrow> string" where
  "str_nat n =
     (if n < 10 then [''0123456789'' ! n]
      else str_nat (n div 10) @ [''0123456789'' ! (n mod 10)])"

definition zero_pad :: "nat \<Rightarrow> string \<Rightarrow> string" where
  "zero_pad w s = replicate (w - length s) CHR ''0'' @ s"

text \<open>\<^verbatim>\<open>date.isoformat()\<close>: \<^verbatim>\<open>%04d-%02d-%02d\<close>.\<close>

definition isoformat :: "pydate \<Rightarrow> string" where
  "isoformat d =
     zero_pad 4 (str_nat (py_year d)) @ ''-'' @ zero_pad 2 (str_nat (py_month d)) @ ''-'' @
     zero_pad 2 (str_nat (py_day d))"

definition is_leap :: "nat \<Rightarrow> bool" where
  "is_leap y = (y mod 4 = 0 \<and> (y mod 100 \<noteq> 0 \<or> y mod 400 = 0))"

definition days_in_month :: "nat \<Rightarrow> nat \<Rightarrow> nat" where
  "days_in_month y m =
     (if m = 2 then (if is_leap y then 29 else 28)
      else if m \<in> {4, 6, 9, 11} then 30 else 31)"

text \<open>
  \<^verbatim>\<open>datetime.strptime(datestr, "%Y-%m-%d")\<close> of the Python library: the whole string
  has to match \<^verbatim>\<open>\d\d\d\d-(1[0-2]|0[1-9]|[1-9])-(3[0-1]|[1-2]\d|0[1-9]|[1-9]| [1-9])\<close>,
  and the three numbers have to form a date of the calendar with a year from 1 on.
\<close>

fun match_month :: "string \<Rightarrow> nat option" where
  "match_month [a] = (if a \<in> set ''123456789'' then Some (digit_val a) else None)"
| "match_month [a, b] =
     (if a = CHR ''1'' \<and> b \<in> set ''012'' then Some (10 + digit_val b)
      else if a = CHR ''0'' \<and> b \<in> set ''123456789'' then Some (digit_val b)
      else None)"
| "match_month _ = None"

fun match_day :: "string \<Rightarrow> nat option" where
  "match_day [a] = (if a \<in> set ''123456789'' then Some (digit_val a) else None)"
| "match_day [a, b] =
     (if a = CHR ''3'' \<and> b \<in> set ''01'' then Some (30 + digit_val b)
      else if a \<in> set ''12'' \<and> is_digit b then Some (10 * digit_val a + digit_val b)
      else if a = CHR ''0'' \<and> b \<in> set ''123456789'' then Some (digit_val b)
      else if a = CHR '' '' \<and> b \<in> set ''123456789'' then Some (digit_val b)
      else None)"
| "match_day _ = None"

fun match_year :: "string \<Rightarrow> nat option" where
  "match_year [a, b, c, d] =
     (if is_digit a \<and> is_digit b \<and> is_digit c \<and> is_digit d
      then Some (1000 * digit_val a + 100 * digit_val b + 10 * digit_val c + digit_val d)
      else None)"
| "match_year _ = None"

definition strptime_Ymd :: "string \<Rightarrow> pydate option" where
  "strptime_Ymd s =
     (case dropWhile (\<lambda>c. c \<noteq> CHR ''-'') (drop 5 s) of
        [] \<Rightarrow> None
      | _ # dseg \<Rightarrow>
          (if length s < 5 \<or> s ! 4 \<noteq> CHR ''-'' then None
           else
             (case (match_year (take 4 s),
                    match_month (takeWhile (\<lambda>c. c \<noteq> CHR ''-'') (drop 5 s)),
                    match_day dseg) of
                (Some y, Some m, Some d) \<Rightarrow>
                  (if 1 \<le> y \<and> d \<le> days_in_month y m
                   then Some \<lparr>py_year = y, py_month = m, py_day = d\<rparr>
                   else None)
              | _ \<Rightarrow> None)))"

text \<open>\<^verbatim>\<open>parse_iso_date\<close>: every exception becomes the one \<^verbatim>\<open>ValueError\<close>.\<close>

definition parse_iso_date :: "string \<Rightarrow> string + pydate" where
  "parse_iso_date datestr =
     (case strptime_Ymd datestr of
        None \<Rightarrow> Inl ''Date must be in YYYY-MM-DD format''
      | Some d \<Rightarrow> Inr d)"

definition map_char :: "string \<Rightarrow> string \<Rightarrow> char \<Rightarrow> char" where
  "map_char src dst c = (case map_of (zip src dst) c of None \<Rightarrow> c | Some c' \<Rightarrow> c')"

definition py_lower :: "string \<Rightarrow> string" where
  "py_lower s = map (map_char ''ABCDEFGHIJKLMNOPQRSTUVWXYZ'' ''abcdefghijklmnopqrstuvwxyz'') s"

definition py_upper :: "string \<Rightarrow> string" where
  "py_upper s = map (map_char ''abcdefghijklmnopqrstuvwxyz'' ''ABCDEFGHIJKLMNOPQRSTUVWXYZ'') s"

definition is_space :: "char \<Rightarrow> bool" where
  "is_space c = ((of_char c :: nat) \<in> {9, 10, 11, 12, 13, 28, 29, 30, 31, 32})"

definition py_strip :: "string \<Rightarrow> string" where
  "py_strip s = rev (dropWhile is_space (rev (dropWhile is_space s)))"

text \<open>\<^verbatim>\<open>x or default\<close> on a string: the empty string is falsy.\<close>

definition py_or :: "string \<Rightarrow> string \<Rightarrow> string" where
  "py_or s dflt = (if s = [] then dflt else s)"

subsection \<open>Ingestion: \<^verbatim>\<open>api_add_account\<close>, \<^verbatim>\<open>api_add_transaction\<close>, \<^verbatim>\<open>api_add_rate\<close>\<close>

text \<open>
  The JSON body of a request, with the fields typed as the API gives them: text fields
  are strings, \<^verbatim>\<open>account_id\<close> is a number, and a field is \<open>None\<close> when the body has
  no such key. The value of \<^verbatim>\<open>amount\<close> and \<^verbatim>\<open>rate\<close> is either something
  \<^verbatim>\<open>float()\<close> converts, with the number it converts to, or something on which
  \<^verbatim>\<open>float()\<close> raises.
\<close>

datatype json_amount = JNumber real | JNotNumber

fun py_float :: "json_amount \<Rightarrow> real option" where
  "py_float (JNumber x) = Some x"
| "py_float JNotNumber = None"

datatype 'a response = Json200 'a | JsonError nat string

record tx_request =
  rq_date :: "string option"
  rq_type :: "string option"
  rq_category :: "string option"
  rq_amount :: "json_amount option"
  rq_currency :: "string option"
  rq_account_id :: "nat option"
  rq_note :: "string option"



text \<open>
  \<^verbatim>\<open>try: x = float(v); if x <= 0: raise ValueError() except: return 400\<close>;
  \<open>None\<close> is the \<^verbatim>\<open>except\<close> branch.
\<close>

definition positive_float :: "json_amount \<Rightarrow> real option" where
  "positive_float v =
     (case py_float v of
        None \<Rightarrow> None
      | Some x \<Rightarrow> if x \<le> 0 then None else Some x)"

definition get_str :: "string option \<Rightarrow> string" where
  "get_str v = (case v of None \<Rightarrow> [] | Some s \<Rightarrow> s)"


text \<open>
  \<^verbatim>\<open>account_id = data.get('account_id')\<close>; a missing or zero id is falsy and the id
  of the first row of \<^verbatim>\<open>SELECT id FROM accounts LIMIT 1\<close> takes its place. A given id
  is used as it is. \<open>None\<close> is the \<^verbatim>\<open>No accounts found\<close> exit.
\<close>

definition first_account :: "store \<Rightarrow> nat option" where
  "first_account st =
     (case table_scan acc_id (accounts st) of [] \<Rightarrow> None | a # _ \<Rightarrow> Some (acc_id a))"

definition choose_account :: "store \<Rightarrow> nat option \<Rightarrow> nat option" where
  "choose_account st account_id =
     (case account_id of
        Some n \<Rightarrow> if n \<noteq> 0 then Some n else first_account st
      | None \<Rightarrow> first_account st)"

text \<open>
  \<^verbatim>\<open>api_add_transaction\<close>. The loop over \<^verbatim>\<open>required_fields\<close> is written out in the
  order of that list: date, type, category, amount, currency.
\<close>

definition api_add_transaction :: "store \<Rightarrow> tx_request \<Rightarrow> store \<times> nat response" where
  "api_add_transaction st data =
     (case rq_date data of None \<Rightarrow> (st, JsonError 400 ''date is required'') | Some date_v \<Rightarrow>
      case rq_type data of None \<Rightarrow> (st, JsonError 400 ''type is required'') | Some type_v \<Rightarrow>
      case rq_category data of None \<Rightarrow> (st, JsonError 400 ''category is required'') | Some category \<Rightarrow>
      case rq_amount data of None \<Rightarrow> (st, JsonError 400 ''amount is required'') | Some amount_v \<Rightarrow>
      case rq_currency data of None \<Rightarrow> (st, JsonError 400 ''currency is required'') | Some currency_v \<Rightarrow>
      case parse_iso_date date_v of Inl e \<Rightarrow> (st, JsonError 400 e) | Inr d \<Rightarrow>
        (let ty = py_strip (py_lower type_v)
         in if ty \<notin> set ALLOWED_TYPES
            then (st, JsonError 400 ''invalid type (allowed: ['expense', 'income', 'transfer'])'')
            else
              (case positive_float amount_v of
                 None \<Rightarrow> (st, JsonError 400 ''Invalid amount; must be positive number'')
               | Some amount \<Rightarrow>
                   (let currency = py_upper (py_or currency_v ''CNY'')
                    in if currency \<notin> set CURRENCIES
                       then (st, JsonError 400 (''Unsupported currency: '' @ currency))
                       else
                         (case choose_account st (rq_account_id data) of
                            None \<Rightarrow> (st, JsonError 400 ''No accounts found'')
                          | Some account_id \<Rightarrow>
                              (let i = next_rowid tx_id (transactions st)
                               in (st\<lparr>transactions := transactions st @
                                      [mk_txn i d ty category amount currency account_id
                                         (get_str (rq_note data))]\<rparr>,
                                   Json200 i)))))))"


subsection \<open>Seeding in \<^verbatim>\<open>init_db\<close>\<close>

definition empty_store :: store where
  "empty_store = \<lparr>accounts = [], transactions = [], exchange_rates = []\<rparr>"

definition default_rates :: "(string \<times> string \<times> real) list" where
  "default_rates =
     [(''USD'', ''CNY'', 72 / 10), (''EUR'', ''CNY'', 78 / 10), (''GBP'', ''CNY'', 9),
      (''CNY'', ''USD'', 1 / (72 / 10)), (''USD'', ''EUR'', 92 / 100),
      (''EUR'', ''USD'', 1 / (92 / 100))]"

fun insert_default_rates :: "string \<Rightarrow> (string \<times> string \<times> real) list \<Rightarrow> exchange_rate list \<Rightarrow> exchange_rate list" where
  "insert_default_rates today [] tbl = tbl"
| "insert_default_rates today ((f, t, r) # rest) tbl =
     insert_default_rates today rest (tbl @ [mk_rate (next_rowid er_id tbl) f t r today ''default''])"

definition init_db :: "string \<Rightarrow> store \<Rightarrow> store" where
  "init_db today st =
     (let st1 = (if length (accounts st) = 0
                 then st\<lparr>accounts := accounts st @
                        [mk_account (next_rowid acc_id (accounts st)) ''Main Account'' ''CNY'']\<rparr>
                 else st)
      in if length (exchange_rates st1) = 0
         then st1\<lparr>exchange_rates := insert_default_rates today default_rates (exchange_rates st1)\<rparr>
         else st1)"

subsection \<open>Rate refresh: \<^verbatim>\<open>update_rates\<close> inside \<^verbatim>\<open>api_update_rates\<close>\<close>

text \<open>
  What the HTTP call yields: a failure (the request, \<^verbatim>\<open>raise_for_status\<close> or the JSON
  decoding raised), or the dictionary \<^verbatim>\<open>data.get('rates', {})\<close>. The inserts run inside
  \<^verbatim>\<open>with get_db_conn() as conn\<close>, which commits when the block ends and rolls back when
  an exception leaves it, so a \<^verbatim>\<open>float()\<close> that raises undoes the inserts made before
  it: \<open>None\<close> below.
\<close>

datatype fetched = FetchFailed | FetchedRates "string \<rightharpoonup> json_amount"

fun insert_api_rates :: "string \<Rightarrow> (string \<rightharpoonup> json_amount) \<Rightarrow> string list \<Rightarrow> exchange_rate list \<Rightarrow> exchange_rate list option" where
  "insert_api_rates today rates [] tbl = Some tbl"
| "insert_api_rates today rates (currency # rest) tbl =
     (case rates currency of
        None \<Rightarrow> insert_api_rates today rates rest tbl
      | Some v \<Rightarrow>
          if currency \<noteq> ''USD'' then
            (case py_float v of
               None \<Rightarrow> None
             | Some x \<Rightarrow>
                 insert_api_rates today rates rest
                   (tbl @ [mk_rate (next_rowid er_id tbl) ''USD'' currency x today ''api'']))
          else insert_api_rates today rates rest tbl)"

definition update_rates :: "string \<Rightarrow> fetched \<Rightarrow> store \<Rightarrow> store \<times> bool" where
  "update_rates today resp st =
     (case resp of
        FetchFailed \<Rightarrow> (st, False)
      | FetchedRates rates \<Rightarrow>
          (case insert_api_rates today rates CURRENCIES (exchange_rates st) of
             None \<Rightarrow> (st, False)
           | Some tbl \<Rightarrow> (st\<lparr>exchange_rates := tbl\<rparr>, True)))"

subsection \<open>Listing and monthly report: \<^verbatim>\<open>get_transactions\<close>, \<^verbatim>\<open>api_monthly_report\<close>\<close>

text \<open>Python truthiness of an optional number: \<^verbatim>\<open>None\<close> and 0 are falsy.\<close>

definition truthy :: "nat option \<Rightarrow> bool" where
  "truthy v = (case v of None \<Rightarrow> False | Some n \<Rightarrow> n \<noteq> 0)"

text \<open>
  \<^verbatim>\<open>strftime('%Y', t.date) = ? AND strftime('%m', t.date) = ?\<close> with the parameters
  \<^verbatim>\<open>str(year)\<close> and \<^verbatim>\<open>f"{int(month):02d}"\<close>: SQLite prints the year with four
  digits and the month with two.
\<close>

definition month_match :: "nat \<Rightarrow> nat \<Rightarrow> txn \<Rightarrow> bool" where
  "month_match year month t =
     (zero_pad 4 (str_nat (py_year (tx_date t))) = str_nat year \<and>
      zero_pad 2 (str_nat (py_month (tx_date t))) = zero_pad 2 (str_nat month))"

text \<open>\<^verbatim>\<open>ORDER BY t.date DESC, t.id DESC\<close>.\<close>

definition tx_before :: "txn \<Rightarrow> txn \<Rightarrow> bool" where
  "tx_before a b =
     (isoformat (tx_date b) < isoformat (tx_date a) \<or>
      (isoformat (tx_date a) = isoformat (tx_date b) \<and> tx_id b \<le> tx_id a))"

fun insort_tx :: "txn \<Rightarrow> txn list \<Rightarrow> txn list" where
  "insort_tx t [] = [t]"
| "insort_tx t (y # ys) = (if tx_before t y then t # y # ys else y # insort_tx t ys)"

definition order_by_date_id_desc :: "txn list \<Rightarrow> txn list" where
  "order_by_date_id_desc rows = foldr insort_tx rows []"

text \<open>
  \<^verbatim>\<open>get_transactions(limit, account_id, year, month)\<close>. The \<^verbatim>\<open>LEFT JOIN\<close> on the
  accounts' primary key adds the column \<^verbatim>\<open>account_name\<close> to a row and adds or removes
  no row; the model returns the transaction rows.
\<close>

definition get_transactions :: "store \<Rightarrow> nat \<Rightarrow> nat option \<Rightarrow> nat option \<Rightarrow> nat option \<Rightarrow> txn list" where
  "get_transactions st limit account_id year month =
     take limit
       (order_by_date_id_desc
          (filter
             (\<lambda>t. (if truthy account_id then Some (tx_account_id t) = account_id else True) \<and>
                  (if truthy year \<and> truthy month
                   then month_match (case year of Some y \<Rightarrow> y | None \<Rightarrow> 0)
                                    (case month of Some m \<Rightarrow> m | None \<Rightarrow> 0) t
                   else True))
             (table_scan tx_id (transactions st))))"

text \<open>\<^verbatim>\<open>sum(...)\<close> adds from the left, starting at 0.\<close>

definition py_sum :: "real list \<Rightarrow> real" where
  "py_sum xs = foldl (+) 0 xs"

text \<open>
  A Python dictionary from category to amount, as the list of its items in insertion
  order. \<^verbatim>\<open>d[k] = d.get(k, 0) + amount\<close>.
\<close>

fun dict_add :: "(string \<times> real) list \<Rightarrow> string \<Rightarrow> real \<Rightarrow> (string \<times> real) list" where
  "dict_add [] k amount = [(k, 0 + amount)]"
| "dict_add ((k', v) # d) k amount =
     (if k' = k then (k', v + amount) # d else (k', v) # dict_add d k amount)"

fun by_category_loop :: "txn list \<Rightarrow> (string \<times> real) list \<Rightarrow> (string \<times> real) list \<Rightarrow>
    (string \<times> real) list \<times> (string \<times> real) list" where
  "by_category_loop [] expense_by_category income_by_category =
     (expense_by_category, income_by_category)"
| "by_category_loop (tx # rest) expense_by_category income_by_category =
     (let category = tx_category tx; amount = tx_amount tx
      in if tx_type tx = ''expense''
         then by_category_loop rest (dict_add expense_by_category category amount) income_by_category
         else by_category_loop rest expense_by_category (dict_add income_by_category category amount))"

record monthly_report =
  rp_year :: nat
  rp_month :: nat
  income_total :: real
  expense_total :: real
  net :: real
  transaction_count :: nat
  expense_by_category :: "(string \<times> real) list"
  income_by_category :: "(string \<times> real) list"
  rp_transactions :: "txn list"

definition api_monthly_report :: "store \<Rightarrow> nat \<Rightarrow> nat \<Rightarrow> monthly_report" where
  "api_monthly_report st year month =
     (let txs = get_transactions st 10000 None (Some year) (Some month);
          income = py_sum (map tx_amount (filter (\<lambda>tx. tx_type tx = ''income'') txs));
          expense = py_sum (map tx_amount (filter (\<lambda>tx. tx_type tx = ''expense'') txs));
          cats = by_category_loop txs [] []
      in \<lparr>rp_year = year, rp_month = month,
          income_total = income, expense_total = expense,
          net = income - expense,
          transaction_count = length txs,
          expense_by_category = fst cats,
          income_by_category = snd cats,
          rp_transactions = txs\<rparr>)"



section \<open>The second application: server.py\<close>

text \<open>
  server.py keeps its own database with two tables and no accounts. Its ids are
  \<^verbatim>\<open>AUTOINCREMENT\<close>: a new id is one more than the largest id the table ever held,
  which SQLite records in \<^verbatim>\<open>sqlite_sequence\<close>, so deleting rows does not free ids.
  The request fields carry the JSON types of the API; a field is \<open>None\<close> when the body
  has no such key.
\<close>

record srv_txn =
  st_id :: nat
  st_date :: string
  st_type :: string
  st_category :: string
  st_amount :: real
  st_currency :: string
  st_note :: string

record srv_store =
  srv_transactions :: "srv_txn list"
  srv_transactions_seq :: nat
  srv_exchange_rates :: "exchange_rate list"
  srv_exchange_rates_seq :: nat


definition autoincrement :: "nat \<Rightarrow> ('a \<Rightarrow> nat) \<Rightarrow> 'a list \<Rightarrow> nat" where
  "autoincrement seq rowid rows = max seq (fold max (map rowid rows) 0) + 1"



definition rates_data :: "(string \<times> string \<times> real) list" where
  "rates_data =
     [(''USD'', ''CNY'', 72345 / 10000), (''EUR'', ''CNY'', 78901 / 10000),
      (''GBP'', ''CNY'', 91234 / 10000), (''CNY'', ''USD'', 1383 / 10000),
      (''CNY'', ''EUR'', 1267 / 10000), (''CNY'', ''GBP'', 1096 / 10000)]"

fun srv_insert_rates :: "string \<Rightarrow> (string \<times> string \<times> real) list \<Rightarrow> exchange_rate list \<times> nat \<Rightarrow> exchange_rate list \<times> nat" where
  "srv_insert_rates today [] (tbl, seq) = (tbl, seq)"
| "srv_insert_rates today ((f, t, r) # rest) (tbl, seq) =
     (let i = autoincrement seq er_id tbl
      in srv_insert_rates today rest (tbl @ [mk_rate i f t r today ''api''], i))"

text \<open>
  \<^verbatim>\<open>handle_update_rates\<close>: \<^verbatim>\<open>DELETE FROM exchange_rates\<close> (commented
  ``Clear old rates'' in the source), then one insert per entry of \<^verbatim>\<open>rates_data\<close>.
\<close>

definition handle_update_rates :: "string \<Rightarrow> srv_store \<Rightarrow> srv_store \<times> unit response" where
  "handle_update_rates today st =
     (let seq0 = max (srv_exchange_rates_seq st) (fold max (map er_id (srv_exchange_rates st)) 0);
          cleared = ([] :: exchange_rate list);
          res = srv_insert_rates today rates_data (cleared, seq0)
      in (st\<lparr>srv_exchange_rates := fst res, srv_exchange_rates_seq := snd res\<rparr>, Json200 ()))"

section \<open>The validator and the store invariants as the specification words them\<close>

text \<open>
  The specification's Ingestion Validator checks every field on its own and reports the
  first violated constraint. \<open>tx_violations\<close> lists the messages of all violated
  constraints of a submission in the order of the checks: the required fields in the
  order date, type, category, amount, currency; then the date format; the type; the
  amount; the currency.
\<close>

definition tx_violations :: "tx_request \<Rightarrow> string list" where
  "tx_violations data =
     (if rq_date data = None then [''date is required''] else []) @
     (if rq_type data = None then [''type is required''] else []) @
     (if rq_category data = None then [''category is required''] else []) @
     (if rq_amount data = None then [''amount is required''] else []) @
     (if rq_currency data = None then [''currency is required''] else []) @
     (case rq_date data of
        None \<Rightarrow> []
      | Some s \<Rightarrow> if strptime_Ymd s = None then [''Date must be in YYYY-MM-DD format''] else []) @
     (case rq_type data of
        None \<Rightarrow> []
      | Some s \<Rightarrow>
          if py_strip (py_lower s) \<in> set ALLOWED_TYPES then []
          else [''invalid type (allowed: ['expense', 'income', 'transfer'])'']) @
     (case rq_amount data of
        None \<Rightarrow> []
      | Some v \<Rightarrow>
          (case py_float v of
             None \<Rightarrow> [''Invalid amount; must be positive number'']
           | Some x \<Rightarrow> if 0 < x then [] else [''Invalid amount; must be positive number''])) @
     (case rq_currency data of
        None \<Rightarrow> []
      | Some c \<Rightarrow>
          if py_upper (py_or c ''CNY'') \<in> set CURRENCIES then []
          else [''Unsupported currency: '' @ py_upper (py_or c ''CNY'')])"


section \<open>Properties of the rate resolver\<close>

lemma set_insort_date_desc: "set (insort_date_desc r xs) = insert r (set xs)"
  by (induction xs) auto

lemma set_order_by_date_desc: "set (order_by_date_desc xs) = set xs"
  by (induction xs) (simp_all add: order_by_date_desc_def set_insort_date_desc)

lemma hd_insort_date_desc:
  "\<forall>y \<in> set xs. er_date y \<le> er_date (hd xs) \<Longrightarrow>
   \<forall>y \<in> set (insort_date_desc r xs). er_date y \<le> er_date (hd (insort_date_desc r xs))"
proof (induction xs)
  case Nil
  then show ?case by simp
next
  case (Cons x xs)
  show ?case
  proof (cases "er_date x \<le> er_date r")
    case True
    with Cons.prems show ?thesis by (auto intro: order_trans)
  next
    case False
    with Cons.prems show ?thesis by (auto simp: set_insort_date_desc)
  qed
qed

lemma hd_order_by_date_desc:
  "\<forall>y \<in> set (order_by_date_desc xs). er_date y \<le> er_date (hd (order_by_date_desc xs))"
proof (induction xs)
  case Nil
  then show ?case by (simp add: order_by_date_desc_def)
next
  case (Cons x xs)
  have "order_by_date_desc (x # xs) = insort_date_desc x (order_by_date_desc xs)"
    by (simp add: order_by_date_desc_def)
  with Cons hd_insort_date_desc show ?case by simp
qed

lemma select_latest_rate_None:
  "select_latest_rate rows f t = None \<longleftrightarrow>
   \<not> (\<exists>r \<in> set rows. from_currency r = f \<and> to_currency r = t)"
proof -
  let ?m = "filter (\<lambda>r. from_currency r = f \<and> to_currency r = t) (table_scan er_id rows)"
  have "select_latest_rate rows f t = None \<longleftrightarrow> order_by_date_desc ?m = []"
    by (simp add: select_latest_rate_def split: list.splits)
  also have "\<dots> \<longleftrightarrow> set (order_by_date_desc ?m) = {}"
    by simp
  also have "\<dots> \<longleftrightarrow> \<not> (\<exists>r \<in> set rows. from_currency r = f \<and> to_currency r = t)"
    unfolding set_order_by_date_desc by (auto simp: table_scan_def filter_empty_conv)
  finally show ?thesis .
qed

lemma select_latest_rate_Some:
  assumes "select_latest_rate rows f t = Some r"
  shows "r \<in> set rows \<and> from_currency r = f \<and> to_currency r = t \<and>
         (\<forall>r' \<in> set rows. from_currency r' = f \<and> to_currency r' = t \<longrightarrow> er_date r' \<le> er_date r)"
proof -
  let ?m = "filter (\<lambda>r. from_currency r = f \<and> to_currency r = t) (table_scan er_id rows)"
  from assms obtain rest where srt: "order_by_date_desc ?m = r # rest"
    by (auto simp: select_latest_rate_def split: list.splits)
  then have "r \<in> set (order_by_date_desc ?m)" by simp
  then have mem: "r \<in> set ?m" by (simp only: set_order_by_date_desc)
  have "\<forall>y \<in> set (order_by_date_desc ?m). er_date y \<le> er_date r"
    using hd_order_by_date_desc [of ?m] srt by simp
  then have "\<forall>y \<in> set ?m. er_date y \<le> er_date r"
    by (simp only: set_order_by_date_desc)
  with mem show ?thesis by (auto simp: table_scan_def)
qed

text \<open>
  C9. For every currency \<open>c\<close>, \<^verbatim>\<open>get_latest_rate(c, c)\<close> is 1.0 whatever the rate
  table holds, and it returns before any query is sent to the table.
\<close>

theorem get_latest_rate_same_currency:
  "get_latest_rate rows c c = 1 \<and> fst (get_latest_rate_log rows c c) = []"
  by (simp add: get_latest_rate_def get_latest_rate_log_def)

text \<open>
  C1. For distinct currencies the resolver follows a strict order: the most recent direct
  rate if the table has one; else the reciprocal of the most recent reverse rate if it
  exists and is not zero; else, when neither currency is USD, the product of the most
  recent rates into and out of USD when both exist and are not zero; else 1.0.
  The row a lookup returns belongs to the requested pair and no row of that pair has a
  later date; a lookup returns nothing exactly when the table has no row of the pair.
\<close>

theorem get_latest_rate_resolution_order:
  assumes "f \<noteq> t"
  shows
    "(\<forall>r. select_latest_rate rows f t = Some r \<longrightarrow> get_latest_rate rows f t = er_rate r) \<and>
     (\<forall>r2. select_latest_rate rows f t = None \<and> select_latest_rate rows t f = Some r2 \<and>
            er_rate r2 \<noteq> 0 \<longrightarrow>
            get_latest_rate rows f t = 1 / er_rate r2) \<and>
     (\<forall>a b. select_latest_rate rows f t = None \<and>
            \<not> (\<exists>r2. select_latest_rate rows t f = Some r2 \<and> er_rate r2 \<noteq> 0) \<and>
            f \<noteq> ''USD'' \<and> t \<noteq> ''USD'' \<and>
            select_latest_rate rows f ''USD'' = Some a \<and> er_rate a \<noteq> 0 \<and>
            select_latest_rate rows ''USD'' t = Some b \<and> er_rate b \<noteq> 0 \<longrightarrow>
            get_latest_rate rows f t = er_rate a * er_rate b) \<and>
     (select_latest_rate rows f t = None \<and>
      \<not> (\<exists>r2. select_latest_rate rows t f = Some r2 \<and> er_rate r2 \<noteq> 0) \<and>
      \<not> (f \<noteq> ''USD'' \<and> t \<noteq> ''USD'' \<and>
         (\<exists>a b. select_latest_rate rows f ''USD'' = Some a \<and> er_rate a \<noteq> 0 \<and>
                select_latest_rate rows ''USD'' t = Some b \<and> er_rate b \<noteq> 0)) \<longrightarrow>
      get_latest_rate rows f t = 1) \<and>
     (\<forall>p q. select_latest_rate rows p q = None \<longleftrightarrow>
            \<not> (\<exists>r \<in> set rows. from_currency r = p \<and> to_currency r = q)) \<and>
     (\<forall>p q r. select_latest_rate rows p q = Some r \<longrightarrow>
            r \<in> set rows \<and> from_currency r = p \<and> to_currency r = q \<and>
            (\<forall>r' \<in> set rows. from_currency r' = p \<and> to_currency r' = q \<longrightarrow>
                               er_date r' \<le> er_date r))"
proof -
  have direct: "\<forall>r. select_latest_rate rows f t = Some r \<longrightarrow> get_latest_rate rows f t = er_rate r"
    using assms by (simp add: get_latest_rate_def get_latest_rate_log_def)
  have reverse: "\<forall>r2. select_latest_rate rows f t = None \<and> select_latest_rate rows t f = Some r2 \<and>
            er_rate r2 \<noteq> 0 \<longrightarrow> get_latest_rate rows f t = 1 / er_rate r2"
    using assms by (simp add: get_latest_rate_def get_latest_rate_log_def)
  have bridge: "\<forall>a b. select_latest_rate rows f t = None \<and>
            \<not> (\<exists>r2. select_latest_rate rows t f = Some r2 \<and> er_rate r2 \<noteq> 0) \<and>
            f \<noteq> ''USD'' \<and> t \<noteq> ''USD'' \<and>
            select_latest_rate rows f ''USD'' = Some a \<and> er_rate a \<noteq> 0 \<and>
            select_latest_rate rows ''USD'' t = Some b \<and> er_rate b \<noteq> 0 \<longrightarrow>
            get_latest_rate rows f t = er_rate a * er_rate b"
    using assms
    by (auto simp: get_latest_rate_def get_latest_rate_log_def via_usd_def
             split: option.splits prod.splits)
  have fallback: "select_latest_rate rows f t = None \<and>
      \<not> (\<exists>r2. select_latest_rate rows t f = Some r2 \<and> er_rate r2 \<noteq> 0) \<and>
      \<not> (f \<noteq> ''USD'' \<and> t \<noteq> ''USD'' \<and>
         (\<exists>a b. select_latest_rate rows f ''USD'' = Some a \<and> er_rate a \<noteq> 0 \<and>
                select_latest_rate rows ''USD'' t = Some b \<and> er_rate b \<noteq> 0)) \<longrightarrow>
      get_latest_rate rows f t = 1"
    using assms
    by (auto simp: get_latest_rate_def get_latest_rate_log_def via_usd_def
             split: option.splits prod.splits)
  have none: "\<forall>p q. select_latest_rate rows p q = None \<longleftrightarrow>
            \<not> (\<exists>r \<in> set rows. from_currency r = p \<and> to_currency r = q)"
    by (simp only: select_latest_rate_None) simp
  have some: "\<forall>p q r. select_latest_rate rows p q = Some r \<longrightarrow>
            r \<in> set rows \<and> from_currency r = p \<and> to_currency r = q \<and>
            (\<forall>r' \<in> set rows. from_currency r' = p \<and> to_currency r' = q \<longrightarrow>
                               er_date r' \<le> er_date r)"
    using select_latest_rate_Some by blast
  from direct reverse bridge fallback none some show ?thesis by (intro conjI)
qed

theorem get_latest_rate_resolution_order_witness:
  "''EUR'' \<noteq> ''CNY'' \<and>
   get_latest_rate
     [mk_rate 1 ''EUR'' ''USD'' (11 / 10) ''2024-03-01'' ''manual'',
      mk_rate 2 ''USD'' ''CNY'' (72 / 10) ''2024-03-01'' ''manual''] ''EUR'' ''CNY''
     = (11 / 10) * (72 / 10)"
  using get_latest_rate_resolution_order
    [of "''EUR''" "''CNY''"
        "[mk_rate 1 ''EUR'' ''USD'' (11 / 10) ''2024-03-01'' ''manual'',
          mk_rate 2 ''USD'' ''CNY'' (72 / 10) ''2024-03-01'' ''manual'']"]
  by (simp add: select_latest_rate_def order_by_date_desc_def table_scan_def mk_rate_def)

text \<open>
  C8. Two rates of one pair with the same date: the query orders by date only, and the
  row the resolver uses is the one inserted first (id 1, rate 7.2), not the one inserted
  last (id 2, rate 7.3). A later date does win over an earlier one.
\<close>

theorem get_latest_rate_equal_dates_first_row:
  "get_latest_rate
     [mk_rate 1 ''USD'' ''CNY'' (72 / 10) ''2024-03-01'' ''default'',
      mk_rate 2 ''USD'' ''CNY'' (73 / 10) ''2024-03-01'' ''manual''] ''USD'' ''CNY'' = 72 / 10 \<and>
   get_latest_rate
     [mk_rate 1 ''USD'' ''CNY'' (72 / 10) ''2024-03-01'' ''default'',
      mk_rate 2 ''USD'' ''CNY'' (73 / 10) ''2024-03-02'' ''manual''] ''USD'' ''CNY'' = 73 / 10"
  by (simp add: get_latest_rate_def get_latest_rate_log_def select_latest_rate_def
                order_by_date_desc_def table_scan_def mk_rate_def)

section \<open>Properties of the balance aggregation\<close>





section \<open>Properties of the monthly report\<close>

lemma py_sum_sum_list: "py_sum xs = sum_list xs"
proof -
  have "foldl (+) a xs = a + sum_list xs" for a :: real
    by (induction xs arbitrary: a) simp_all
  then show ?thesis by (simp add: py_sum_def)
qed

lemma sum_dict_add: "sum_list (map snd (dict_add d k a)) = sum_list (map snd d) + a"
  by (induction d k a rule: dict_add.induct) simp_all

lemma by_category_loop_sums:
  "sum_list (map snd (fst (by_category_loop txs e i))) =
     sum_list (map snd e) + sum_list (map tx_amount (filter (\<lambda>tx. tx_type tx = ''expense'') txs)) \<and>
   sum_list (map snd (snd (by_category_loop txs e i))) =
     sum_list (map snd i) + sum_list (map tx_amount (filter (\<lambda>tx. tx_type tx \<noteq> ''expense'') txs))"
  by (induction txs arbitrary: e i) (simp_all add: Let_def sum_dict_add)

lemma monthly_report_net:
  "net (api_monthly_report st y m) =
   income_total (api_monthly_report st y m) - expense_total (api_monthly_report st y m)"
  by (simp add: api_monthly_report_def Let_def)

lemma expense_by_category_sum:
  "sum_list (map snd (expense_by_category (api_monthly_report st y m))) =
   expense_total (api_monthly_report st y m)"
  by (simp add: api_monthly_report_def Let_def by_category_loop_sums py_sum_sum_list)

lemma income_by_category_sum:
  "sum_list (map snd (income_by_category (api_monthly_report st y m))) =
   sum_list (map tx_amount (filter (\<lambda>tx. tx_type tx \<noteq> ''expense'') (rp_transactions (api_monthly_report st y m))))"
  by (simp add: api_monthly_report_def Let_def by_category_loop_sums)

text \<open>
  C2. One transfer in March 2024, submitted through \<^verbatim>\<open>api_add_transaction\<close> to a
  freshly seeded store: the report has income total 0 and net 0, while its income
  breakdown holds the transfer, so that the breakdown sums to 100 and not to the income
  total. The expense breakdown does sum to the expense total.
\<close>

theorem monthly_report_transfer_in_income_breakdown:
  "income_total (api_monthly_report
      (fst (api_add_transaction (init_db ''2024-03-01'' empty_store)
         \<lparr>rq_date = Some ''2024-03-05'', rq_type = Some ''transfer'', rq_category = Some ''Savings'',
          rq_amount = Some (JNumber 100), rq_currency = Some ''CNY'', rq_account_id = None,
          rq_note = None\<rparr>)) 2024 3) = 0 \<and>
   income_by_category (api_monthly_report
      (fst (api_add_transaction (init_db ''2024-03-01'' empty_store)
         \<lparr>rq_date = Some ''2024-03-05'', rq_type = Some ''transfer'', rq_category = Some ''Savings'',
          rq_amount = Some (JNumber 100), rq_currency = Some ''CNY'', rq_account_id = None,
          rq_note = None\<rparr>)) 2024 3) = [(''Savings'', 100)] \<and>
   sum_list (map snd (income_by_category (api_monthly_report
      (fst (api_add_transaction (init_db ''2024-03-01'' empty_store)
         \<lparr>rq_date = Some ''2024-03-05'', rq_type = Some ''transfer'', rq_category = Some ''Savings'',
          rq_amount = Some (JNumber 100), rq_currency = Some ''CNY'', rq_account_id = None,
          rq_note = None\<rparr>)) 2024 3))) \<noteq>
   income_total (api_monthly_report
      (fst (api_add_transaction (init_db ''2024-03-01'' empty_store)
         \<lparr>rq_date = Some ''2024-03-05'', rq_type = Some ''transfer'', rq_category = Some ''Savings'',
          rq_amount = Some (JNumber 100), rq_currency = Some ''CNY'', rq_account_id = None,
          rq_note = None\<rparr>)) 2024 3)"
proof -
  have st: "fst (api_add_transaction (init_db ''2024-03-01'' empty_store)
         \<lparr>rq_date = Some ''2024-03-05'', rq_type = Some ''transfer'', rq_category = Some ''Savings'',
          rq_amount = Some (JNumber 100), rq_currency = Some ''CNY'', rq_account_id = None,
          rq_note = None\<rparr>) =
     (init_db ''2024-03-01'' empty_store)
       \<lparr>transactions := [mk_txn 1 \<lparr>py_year = 2024, py_month = 3, py_day = 5\<rparr> ''transfer''
                           ''Savings'' 100 ''CNY'' 1 []]\<rparr>"
    by (simp add: api_add_transaction_def init_db_def empty_store_def parse_iso_date_def
        strptime_Ymd_def is_digit_def digit_val_def days_in_month_def is_leap_def
        py_strip_def py_lower_def py_upper_def map_char_def is_space_def ALLOWED_TYPES_def
        CURRENCIES_def positive_float_def py_or_def choose_account_def first_account_def
        table_scan_def next_rowid_def mk_account_def get_str_def Let_def)
  have txs: "get_transactions
       ((init_db ''2024-03-01'' empty_store)
          \<lparr>transactions := [mk_txn 1 \<lparr>py_year = 2024, py_month = 3, py_day = 5\<rparr> ''transfer''
                              ''Savings'' 100 ''CNY'' 1 []]\<rparr>) 10000 None (Some 2024) (Some 3) =
     [mk_txn 1 \<lparr>py_year = 2024, py_month = 3, py_day = 5\<rparr> ''transfer'' ''Savings'' 100 ''CNY'' 1 []]"
    by (simp add: get_transactions_def truthy_def month_match_def zero_pad_def table_scan_def
        order_by_date_id_desc_def mk_txn_def)
  show ?thesis
    unfolding st api_monthly_report_def txs by (simp add: Let_def py_sum_def mk_txn_def)
qed









section \<open>Properties of the rate refresh\<close>

lemma insert_api_rates_appends:
  "insert_api_rates today rates cs tbl = Some tbl' \<Longrightarrow>
   \<exists>new. tbl' = tbl @ new \<and>
         list_all (\<lambda>r. from_currency r = ''USD'' \<and> to_currency r \<in> set cs \<and>
                        er_date r = today \<and> er_source r = ''api'') new"
proof (induction cs arbitrary: tbl)
  case Nil
  then show ?case by simp
next
  case (Cons c cs)
  show ?case
  proof (cases "rates c")
    case None
    with Cons.prems have "insert_api_rates today rates cs tbl = Some tbl'" by simp
    from Cons.IH [OF this] obtain new where
      "tbl' = tbl @ new"
      "list_all (\<lambda>r. from_currency r = ''USD'' \<and> to_currency r \<in> set cs \<and>
                      er_date r = today \<and> er_source r = ''api'') new"
      by blast
    then show ?thesis by (auto simp: list_all_iff)
  next
    case (Some v)
    show ?thesis
    proof (cases "c \<noteq> ''USD''")
      case False
      with Some Cons.prems have "insert_api_rates today rates cs tbl = Some tbl'" by simp
      from Cons.IH [OF this] obtain new where
        "tbl' = tbl @ new"
        "list_all (\<lambda>r. from_currency r = ''USD'' \<and> to_currency r \<in> set cs \<and>
                        er_date r = today \<and> er_source r = ''api'') new"
        by blast
      then show ?thesis by (auto simp: list_all_iff)
    next
      case True
      with Some Cons.prems obtain x where x: "py_float v = Some x"
        and rec: "insert_api_rates today rates cs
                    (tbl @ [mk_rate (next_rowid er_id tbl) ''USD'' c x today ''api'']) = Some tbl'"
        by (auto split: option.splits)
      from Cons.IH [OF rec] obtain new where
        new: "tbl' = (tbl @ [mk_rate (next_rowid er_id tbl) ''USD'' c x today ''api'']) @ new"
        "list_all (\<lambda>r. from_currency r = ''USD'' \<and> to_currency r \<in> set cs \<and>
                        er_date r = today \<and> er_source r = ''api'') new"
        by blast
      have "tbl' = tbl @ (mk_rate (next_rowid er_id tbl) ''USD'' c x today ''api'' # new)"
        using new(1) by simp
      moreover have "list_all (\<lambda>r. from_currency r = ''USD'' \<and> to_currency r \<in> set (c # cs) \<and>
                        er_date r = today \<and> er_source r = ''api'')
                       (mk_rate (next_rowid er_id tbl) ''USD'' c x today ''api'' # new)"
        using new(2) by (auto simp: list_all_iff mk_rate_def)
      ultimately show ?thesis by blast
    qed
  qed
qed

lemma srv_insert_rates_rows:
  "map (\<lambda>r. (from_currency r, to_currency r, er_rate r)) (fst (srv_insert_rates today rs (tbl, seq))) =
   map (\<lambda>r. (from_currency r, to_currency r, er_rate r)) tbl @ rs"
  by (induction rs arbitrary: tbl seq) (auto simp: Let_def mk_rate_def)

text \<open>
  C4, as the claim states it: it fails for the refresh of server.py. A table holding one
  rate row before \<^verbatim>\<open>handle_update_rates\<close> does not hold that row afterwards.
\<close>

theorem handle_update_rates_removes_rows:
  "mk_rate 1 ''EUR'' ''USD'' (11 / 10) ''2024-03-01'' ''api'' \<in>
     set (srv_exchange_rates
       \<lparr>srv_transactions = [], srv_transactions_seq = 0,
        srv_exchange_rates = [mk_rate 1 ''EUR'' ''USD'' (11 / 10) ''2024-03-01'' ''api''],
        srv_exchange_rates_seq = 1\<rparr>) \<and>
   mk_rate 1 ''EUR'' ''USD'' (11 / 10) ''2024-03-01'' ''api'' \<notin>
     set (srv_exchange_rates (fst (handle_update_rates ''2024-03-02''
       \<lparr>srv_transactions = [], srv_transactions_seq = 0,
        srv_exchange_rates = [mk_rate 1 ''EUR'' ''USD'' (11 / 10) ''2024-03-01'' ''api''],
        srv_exchange_rates_seq = 1\<rparr>))) \<and>
   snd (handle_update_rates ''2024-03-02''
       \<lparr>srv_transactions = [], srv_transactions_seq = 0,
        srv_exchange_rates = [mk_rate 1 ''EUR'' ''USD'' (11 / 10) ''2024-03-01'' ''api''],
        srv_exchange_rates_seq = 1\<rparr>) = Json200 ()"
  by (simp add: handle_update_rates_def rates_data_def autoincrement_def mk_rate_def Let_def)

text \<open>
  C4, amended. The refresh of finance\_app.py, \<^verbatim>\<open>update_rates\<close>, touches neither
  accounts nor transactions; when it succeeds the rate table is the old table followed by
  new rows, each from USD to a supported currency, dated today and tagged api; when it
  fails the store is the one it started from. The refresh of server.py replaces the
  table: afterwards it holds the six pairs of \<^verbatim>\<open>rates_data\<close> and nothing else.
\<close>

theorem update_rates_appends_or_keeps:
  assumes "update_rates today resp st = (st', ok)"
  shows "accounts st' = accounts st \<and> transactions st' = transactions st \<and>
         (if ok
          then \<exists>new. exchange_rates st' = exchange_rates st @ new \<and>
                 list_all (\<lambda>r. from_currency r = ''USD'' \<and> to_currency r \<in> set CURRENCIES \<and>
                                er_date r = today \<and> er_source r = ''api'') new
          else st' = st) \<and>
         map (\<lambda>r. (from_currency r, to_currency r, er_rate r))
             (srv_exchange_rates (fst (handle_update_rates today srv))) = rates_data"
proof -
  have srv: "map (\<lambda>r. (from_currency r, to_currency r, er_rate r))
             (srv_exchange_rates (fst (handle_update_rates today srv))) = rates_data"
    by (simp add: handle_update_rates_def Let_def srv_insert_rates_rows)
  show ?thesis
  proof (cases resp)
    case FetchFailed
    with assms srv show ?thesis by (auto simp: update_rates_def)
  next
    case (FetchedRates rates)
    show ?thesis
    proof (cases "insert_api_rates today rates CURRENCIES (exchange_rates st)")
      case None
      with assms FetchedRates srv show ?thesis by (auto simp: update_rates_def)
    next
      case (Some tbl)
      from insert_api_rates_appends [OF Some] obtain new where
        "tbl = exchange_rates st @ new"
        "list_all (\<lambda>r. from_currency r = ''USD'' \<and> to_currency r \<in> set CURRENCIES \<and>
                        er_date r = today \<and> er_source r = ''api'') new"
        by blast
      with assms FetchedRates Some srv show ?thesis by (auto simp: update_rates_def)
    qed
  qed
qed

theorem update_rates_appends_or_keeps_witness:
  "update_rates ''2024-03-02'' (FetchedRates [''CNY'' \<mapsto> JNumber (725 / 100), ''USD'' \<mapsto> JNumber 1])
     \<lparr>accounts = [], transactions = [],
      exchange_rates = [mk_rate 1 ''USD'' ''CNY'' (72 / 10) ''2024-03-01'' ''default'']\<rparr> =
   (\<lparr>accounts = [], transactions = [],
     exchange_rates = [mk_rate 1 ''USD'' ''CNY'' (72 / 10) ''2024-03-01'' ''default''] @
                      [mk_rate 2 ''USD'' ''CNY'' (725 / 100) ''2024-03-02'' ''api'']\<rparr>, True) \<and>
   update_rates ''2024-03-02'' (FetchedRates [''CNY'' \<mapsto> JNumber (725 / 100), ''EUR'' \<mapsto> JNotNumber])
     \<lparr>accounts = [], transactions = [],
      exchange_rates = [mk_rate 1 ''USD'' ''CNY'' (72 / 10) ''2024-03-01'' ''default'']\<rparr> =
   (\<lparr>accounts = [], transactions = [],
     exchange_rates = [mk_rate 1 ''USD'' ''CNY'' (72 / 10) ''2024-03-01'' ''default'']\<rparr>, False)"
proof -
  have ok: "update_rates ''2024-03-02'' (FetchedRates [''CNY'' \<mapsto> JNumber (725 / 100), ''USD'' \<mapsto> JNumber 1])
     \<lparr>accounts = [], transactions = [],
      exchange_rates = [mk_rate 1 ''USD'' ''CNY'' (72 / 10) ''2024-03-01'' ''default'']\<rparr> =
   (\<lparr>accounts = [], transactions = [],
     exchange_rates = [mk_rate 1 ''USD'' ''CNY'' (72 / 10) ''2024-03-01'' ''default''] @
                      [mk_rate 2 ''USD'' ''CNY'' (725 / 100) ''2024-03-02'' ''api'']\<rparr>, True)"
    by (simp add: update_rates_def CURRENCIES_def next_rowid_def mk_rate_def)
  have failed: "snd (update_rates ''2024-03-02'' (FetchedRates [''CNY'' \<mapsto> JNumber (725 / 100), ''EUR'' \<mapsto> JNotNumber])
     \<lparr>accounts = [], transactions = [],
      exchange_rates = [mk_rate 1 ''USD'' ''CNY'' (72 / 10) ''2024-03-01'' ''default'']\<rparr>) = False"
    by (simp add: update_rates_def CURRENCIES_def next_rowid_def mk_rate_def)
  from update_rates_appends_or_keeps [OF surjective_pairing,
      of "''2024-03-02''" "FetchedRates [''CNY'' \<mapsto> JNumber (725 / 100), ''EUR'' \<mapsto> JNotNumber]"
         "\<lparr>accounts = [], transactions = [],
           exchange_rates = [mk_rate 1 ''USD'' ''CNY'' (72 / 10) ''2024-03-01'' ''default'']\<rparr>"]
  have "fst (update_rates ''2024-03-02'' (FetchedRates [''CNY'' \<mapsto> JNumber (725 / 100), ''EUR'' \<mapsto> JNotNumber])
     \<lparr>accounts = [], transactions = [],
      exchange_rates = [mk_rate 1 ''USD'' ''CNY'' (72 / 10) ''2024-03-01'' ''default'']\<rparr>) =
     \<lparr>accounts = [], transactions = [],
      exchange_rates = [mk_rate 1 ''USD'' ''CNY'' (72 / 10) ''2024-03-01'' ''default'']\<rparr>"
    unfolding failed by simp
  with failed ok show ?thesis by (simp add: prod_eq_iff)
qed

section \<open>Properties of the ingestion\<close>







lemma api_add_transaction_accepts:
  assumes "tx_violations data = []"
  shows "\<exists>s ty c x cur d.
     rq_date data = Some s \<and> strptime_Ymd s = Some d \<and>
     rq_type data = Some ty \<and> py_strip (py_lower ty) \<in> set ALLOWED_TYPES \<and>
     rq_category data = Some c \<and>
     (\<exists>v. rq_amount data = Some v \<and> py_float v = Some x) \<and> 0 < x \<and>
     rq_currency data = Some cur \<and> py_upper (py_or cur ''CNY'') \<in> set CURRENCIES \<and>
     api_add_transaction st data =
       (case choose_account st (rq_account_id data) of
          None \<Rightarrow> (st, JsonError 400 ''No accounts found'')
        | Some a \<Rightarrow>
            (st\<lparr>transactions := transactions st @
                  [mk_txn (next_rowid tx_id (transactions st)) d (py_strip (py_lower ty)) c x
                     (py_upper (py_or cur ''CNY'')) a (get_str (rq_note data))]\<rparr>,
             Json200 (next_rowid tx_id (transactions st))))"
  using assms
  unfolding tx_violations_def api_add_transaction_def parse_iso_date_def positive_float_def Let_def
  by (cases "rq_date data"; cases "rq_type data"; cases "rq_category data";
      cases "rq_amount data"; cases "rq_currency data")
     (auto split: option.splits if_splits)

lemma first_account_lowest:
  assumes "accounts st \<noteq> []"
  shows "first_account st = Some (Min (acc_id ` set (accounts st)))"
proof -
  let ?xs = "sort_key acc_id (accounts st)"
  from assms have "?xs \<noteq> []" by (metis length_0_conv length_sort)
  then obtain a rest where xs: "?xs = a # rest" by (cases ?xs) auto
  have "sorted (map acc_id ?xs)" by (rule sorted_sort_key)
  with xs have le: "\<forall>x \<in> set ?xs. acc_id a \<le> acc_id x" by auto
  have mem: "a \<in> set (accounts st)"
    using xs by (metis list.set_intros(1) set_sort)
  have "Min (acc_id ` set (accounts st)) = acc_id a"
  proof (rule Min_eqI)
    show "finite (acc_id ` set (accounts st))" by simp
    show "acc_id a \<in> acc_id ` set (accounts st)" using mem by simp
    show "\<And>y. y \<in> acc_id ` set (accounts st) \<Longrightarrow> acc_id a \<le> y" using le by auto
  qed
  with xs show ?thesis by (simp add: first_account_def table_scan_def)
qed

lemma first_account_none: "first_account st = None \<longleftrightarrow> accounts st = []"
proof
  assume "first_account st = None"
  then show "accounts st = []"
    using first_account_lowest [of st] by (cases "accounts st = []") simp_all
next
  assume "accounts st = []"
  then show "first_account st = None" by (simp add: first_account_def table_scan_def)
qed













text \<open>
  C7, as the claim states it: it fails. On the seeded store, whose only account has id 1,
  a valid submission naming account 999 is accepted and stored with account id 999.
\<close>

theorem api_add_transaction_unknown_account:
  "map acc_id (accounts (init_db ''2024-03-01'' empty_store)) = [1] \<and>
   snd (api_add_transaction (init_db ''2024-03-01'' empty_store)
     \<lparr>rq_date = Some ''2024-03-05'', rq_type = Some ''expense'', rq_category = Some ''Food'',
      rq_amount = Some (JNumber 50), rq_currency = Some ''CNY'', rq_account_id = Some 999,
      rq_note = None\<rparr>) = Json200 1 \<and>
   map tx_account_id (transactions (fst (api_add_transaction (init_db ''2024-03-01'' empty_store)
     \<lparr>rq_date = Some ''2024-03-05'', rq_type = Some ''expense'', rq_category = Some ''Food'',
      rq_amount = Some (JNumber 50), rq_currency = Some ''CNY'', rq_account_id = Some 999,
      rq_note = None\<rparr>))) = [999]"
  by (simp add: api_add_transaction_def init_db_def empty_store_def parse_iso_date_def
        strptime_Ymd_def is_digit_def digit_val_def days_in_month_def is_leap_def
        py_strip_def py_lower_def py_upper_def map_char_def is_space_def ALLOWED_TYPES_def
        CURRENCIES_def positive_float_def py_or_def choose_account_def first_account_def
        table_scan_def next_rowid_def mk_account_def mk_txn_def get_str_def Let_def)

text \<open>
  C7, amended. For a submission without violation: when no account id is given (the
  field is missing or 0) and the store has no account, the answer is status 400 and
  nothing is stored; when no account id is given and the store has accounts, the row is
  stored with the lowest account id of the store; when an account id is given, the row
  is stored with that id as it is.
\<close>

theorem api_add_transaction_account_id:
  assumes "tx_violations data = []"
  shows
    "(\<not> truthy (rq_account_id data) \<and> accounts st = [] \<longrightarrow>
        api_add_transaction st data = (st, JsonError 400 ''No accounts found'')) \<and>
     (\<not> truthy (rq_account_id data) \<and> accounts st \<noteq> [] \<longrightarrow>
        (\<exists>row. api_add_transaction st data =
                  (st\<lparr>transactions := transactions st @ [row]\<rparr>, Json200 (tx_id row)) \<and>
               tx_account_id row = Min (acc_id ` set (accounts st)) \<and>
               tx_account_id row \<in> acc_id ` set (accounts st))) \<and>
     (\<forall>n. rq_account_id data = Some n \<and> n \<noteq> 0 \<longrightarrow>
        (\<exists>row. api_add_transaction st data =
                  (st\<lparr>transactions := transactions st @ [row]\<rparr>, Json200 (tx_id row)) \<and>
               tx_account_id row = n))"
proof -
  from api_add_transaction_accepts [OF assms, of st] obtain d ty c x cur where
    res: "api_add_transaction st data =
       (case choose_account st (rq_account_id data) of
          None \<Rightarrow> (st, JsonError 400 ''No accounts found'')
        | Some a \<Rightarrow>
            (st\<lparr>transactions := transactions st @
                  [mk_txn (next_rowid tx_id (transactions st)) d ty c x cur a
                     (get_str (rq_note data))]\<rparr>,
             Json200 (next_rowid tx_id (transactions st))))"
    by blast
  have none: "\<not> truthy (rq_account_id data) \<and> accounts st = [] \<longrightarrow>
        api_add_transaction st data = (st, JsonError 400 ''No accounts found'')"
  proof
    assume a: "\<not> truthy (rq_account_id data) \<and> accounts st = []"
    then have "choose_account st (rq_account_id data) = None"
      by (auto simp: choose_account_def truthy_def first_account_none split: option.splits)
    with res show "api_add_transaction st data = (st, JsonError 400 ''No accounts found'')"
      by simp
  qed
  have dflt: "\<not> truthy (rq_account_id data) \<and> accounts st \<noteq> [] \<longrightarrow>
        (\<exists>row. api_add_transaction st data =
                  (st\<lparr>transactions := transactions st @ [row]\<rparr>, Json200 (tx_id row)) \<and>
               tx_account_id row = Min (acc_id ` set (accounts st)) \<and>
               tx_account_id row \<in> acc_id ` set (accounts st))"
  proof
    assume a: "\<not> truthy (rq_account_id data) \<and> accounts st \<noteq> []"
    then have ch: "choose_account st (rq_account_id data) = Some (Min (acc_id ` set (accounts st)))"
      by (auto simp: choose_account_def truthy_def first_account_lowest split: option.splits)
    have "Min (acc_id ` set (accounts st)) \<in> acc_id ` set (accounts st)"
      using a by (intro Min_in) auto
    with res ch
    show "\<exists>row. api_add_transaction st data =
                  (st\<lparr>transactions := transactions st @ [row]\<rparr>, Json200 (tx_id row)) \<and>
               tx_account_id row = Min (acc_id ` set (accounts st)) \<and>
               tx_account_id row \<in> acc_id ` set (accounts st)"
      by (intro exI [of _ "mk_txn (next_rowid tx_id (transactions st)) d ty c x cur
             (Min (acc_id ` set (accounts st))) (get_str (rq_note data))"])
         (simp add: mk_txn_def)
  qed
  have given: "\<forall>n. rq_account_id data = Some n \<and> n \<noteq> 0 \<longrightarrow>
        (\<exists>row. api_add_transaction st data =
                  (st\<lparr>transactions := transactions st @ [row]\<rparr>, Json200 (tx_id row)) \<and>
               tx_account_id row = n)"
  proof (intro allI impI)
    fix n
    assume a: "rq_account_id data = Some n \<and> n \<noteq> 0"
    then have ch: "choose_account st (rq_account_id data) = Some n"
      by (simp add: choose_account_def)
    with res
    show "\<exists>row. api_add_transaction st data =
                  (st\<lparr>transactions := transactions st @ [row]\<rparr>, Json200 (tx_id row)) \<and>
               tx_account_id row = n"
      by (intro exI [of _ "mk_txn (next_rowid tx_id (transactions st)) d ty c x cur n
             (get_str (rq_note data))"])
         (simp add: mk_txn_def)
  qed
  from none dflt given show ?thesis by (intro conjI)
qed

theorem api_add_transaction_account_id_witness:
  "tx_violations
     \<lparr>rq_date = Some ''2024-03-05'', rq_type = Some ''expense'', rq_category = Some ''Food'',
      rq_amount = Some (JNumber 50), rq_currency = Some ''CNY'', rq_account_id = None,
      rq_note = None\<rparr> = [] \<and>
   api_add_transaction empty_store
     \<lparr>rq_date = Some ''2024-03-05'', rq_type = Some ''expense'', rq_category = Some ''Food'',
      rq_amount = Some (JNumber 50), rq_currency = Some ''CNY'', rq_account_id = None,
      rq_note = None\<rparr> = (empty_store, JsonError 400 ''No accounts found'')"
proof -
  have v: "tx_violations
     \<lparr>rq_date = Some ''2024-03-05'', rq_type = Some ''expense'', rq_category = Some ''Food'',
      rq_amount = Some (JNumber 50), rq_currency = Some ''CNY'', rq_account_id = None,
      rq_note = None\<rparr> = []"
    by (simp add: tx_violations_def strptime_Ymd_def is_digit_def digit_val_def days_in_month_def
        is_leap_def py_strip_def py_lower_def py_upper_def map_char_def is_space_def
        ALLOWED_TYPES_def CURRENCIES_def py_or_def)
  from api_add_transaction_account_id [OF v, of empty_store] v
  show ?thesis by (simp add: truthy_def empty_store_def)
qed

end
